theory Spec2Isabelle
  imports Main
begin

section \<open>Values of the host language\<close>

text \<open>
  The comparator factory \<^verbatim>\<open>createDeepPropertySorter\<close> sorts arbitrary JavaScript
  values: \<^verbatim>\<open>undefined\<close>, \<^verbatim>\<open>null\<close>, booleans, numbers, strings, arrays, plain
  objects, and the other objects of the runtime.

  \<^item> A string is a list of code units; the model covers the code units below 256
    (ASCII and Latin-1), where a code unit is a character.
  \<^item> A number is \<^verbatim>\<open>NaN\<close>, an infinity, or a finite number given by the decimal
    \<open>\<plusminus> s \<times> 10\<^sup>e\<close> that \<^verbatim>\<open>String\<close> prints for it (the shortest decimal that
    identifies the double); \<open>Finite True 0 e\<close> is the negative zero.
  \<^item> An object \<open>Obj\<close> is the list of its own data properties, the first binding of
    a key being its value.
  \<^item> \<open>Native name\<close> is any other value: a function, or another object of the
    runtime, told apart by a name. It has the type \<^verbatim>\<open>function\<close> or \<^verbatim>\<open>object\<close>.
  \<^item> What a value inherits from the prototypes of the runtime (\<^verbatim>\<open>constructor\<close>,
    \<^verbatim>\<open>toString\<close>, ...) is not fixed by the program: it is the parameter
    \<open>inherited\<close> of the resolver, which may return a value or raise.
\<close>

datatype jsnum = NaN | PosInfinity | NegInfinity | Finite bool nat int

datatype jsval =
    Undefined
  | Null
  | Bool bool
  | Num jsnum
  | Str string
  | Arr "jsval list"
  | Obj "(string \<times> jsval) list"
  | Native string

datatype error = TypeError

subsection \<open>Characters\<close>

definition code_unit :: "char \<Rightarrow> nat" where
  "code_unit c = of_char c"

text \<open>White space and line terminators removed by \<^verbatim>\<open>String.prototype.trim\<close>:
  TAB, LF, VT, FF, CR, SPACE and NO-BREAK SPACE.\<close>

definition is_white_space :: "char \<Rightarrow> bool" where
  "is_white_space c = (code_unit c \<in> {9, 10, 11, 12, 13, 32, 160})"

definition trim :: "string \<Rightarrow> string" where
  "trim s = rev (dropWhile is_white_space (rev (dropWhile is_white_space s)))"

text \<open>\<^verbatim>\<open>String.prototype.toLowerCase\<close>: \<^verbatim>\<open>A\<close>--\<^verbatim>\<open>Z\<close> and the Latin-1 capitals
  (U+00C0--U+00DE without the multiplication sign U+00D7) move up by 32.\<close>

definition lower_char :: "char \<Rightarrow> char" where
  "lower_char c =
     (let n = code_unit c in
      if (65 \<le> n \<and> n \<le> 90) \<or> (192 \<le> n \<and> n \<le> 222 \<and> n \<noteq> 215)
      then char_of (n + 32) else c)"

definition toLowerCase :: "string \<Rightarrow> string" where
  "toLowerCase s = map lower_char s"

text \<open>The character class \<^verbatim>\<open>[a-z]\<close> under the flag \<^verbatim>\<open>i\<close> (no flag \<^verbatim>\<open>u\<close>): a
  code unit matches when its upper-case form lies in \<^verbatim>\<open>A\<close>--\<^verbatim>\<open>Z\<close>, and a code
  unit from 128 on is never mapped to one below 128.\<close>

definition re_letter_i :: "char \<Rightarrow> bool" where
  "re_letter_i c =
     (let n = code_unit c in (97 \<le> n \<and> n \<le> 122) \<or> (65 \<le> n \<and> n \<le> 90))"

text \<open>The character class \<^verbatim>\<open>\d\<close>: \<^verbatim>\<open>0\<close>--\<^verbatim>\<open>9\<close>.\<close>

definition re_digit :: "char \<Rightarrow> bool" where
  "re_digit c = (let n = code_unit c in 48 \<le> n \<and> n \<le> 57)"

subsection \<open>Numbers as strings\<close>

definition digit_char :: "nat \<Rightarrow> char" where
  "digit_char d = char_of (48 + d)"

fun decimal :: "nat \<Rightarrow> string" where
  "decimal n = (if n < 10 then [digit_char n]
                else decimal (n div 10) @ [digit_char (n mod 10)])"

declare decimal.simps [simp del]

text \<open>The digits \<open>s\<close> with as few digits as possible: trailing zeros move into
  the exponent.\<close>

fun shortest :: "nat \<Rightarrow> int \<Rightarrow> nat \<times> int" where
  "shortest s e = (if s \<noteq> 0 \<and> s mod 10 = 0 then shortest (s div 10) (e + 1) else (s, e))"

declare shortest.simps [simp del]

text \<open>\<^verbatim>\<open>Number::toString\<close> in radix 10 for a positive finite number: with \<open>k\<close>
  digits \<open>ds\<close> and the decimal point after the \<open>n\<close>-th digit.\<close>

definition positive_toString :: "nat \<Rightarrow> int \<Rightarrow> string" where
  "positive_toString s e =
     (case shortest s e of (s', e') \<Rightarrow>
        let ds = decimal s'; k = int (length ds); n = e' + k in
        if k \<le> n \<and> n \<le> 21 then ds @ replicate (nat (n - k)) (CHR ''0'')
        else if 0 < n \<and> n \<le> 21 then take (nat n) ds @ ''.'' @ drop (nat n) ds
        else if - 6 < n \<and> n \<le> 0 then ''0.'' @ replicate (nat (- n)) (CHR ''0'') @ ds
        else
          let x = n - 1;
              ex = (if x < 0 then CHR ''-'' else CHR ''+'') # decimal (nat \<bar>x\<bar>)
          in if k = 1 then ds @ ''e'' @ ex
             else hd ds # CHR ''.'' # tl ds @ ''e'' @ ex)"

text \<open>\<^verbatim>\<open>String(value)\<close> for a number.\<close>

fun String_number :: "jsnum \<Rightarrow> string" where
  "String_number NaN = ''NaN''"
| "String_number PosInfinity = ''Infinity''"
| "String_number NegInfinity = ''-Infinity''"
| "String_number (Finite neg s e) =
     (if s = 0 then ''0''
      else if neg then CHR ''-'' # positive_toString s e
      else positive_toString s e)"

subsection \<open>Property access\<close>

text \<open>A canonical numeric string names an index: the decimal of a natural number,
  without sign, leading zero or blank.\<close>

fun digits_value :: "string \<Rightarrow> nat" where
  "digits_value s = foldl (\<lambda>acc c. 10 * acc + (code_unit c - 48)) 0 s"

definition array_index :: "string \<Rightarrow> nat option" where
  "array_index key =
     (if key \<noteq> [] \<and> list_all re_digit key \<and> decimal (digits_value key) = key
      then Some (digits_value key) else None)"

text \<open>The own property \<open>key\<close> of a value, if it has one. Strings and arrays have
  \<^verbatim>\<open>length\<close> and their indices; booleans, numbers, \<^verbatim>\<open>undefined\<close> and \<^verbatim>\<open>null\<close> have
  no own property; what a \<open>Native\<close> value holds is left to the runtime.\<close>

fun own_property :: "jsval \<Rightarrow> string \<Rightarrow> jsval option" where
  "own_property (Obj props) key = map_of props key"
| "own_property (Arr xs) key =
     (if key = ''length'' then Some (Num (Finite False (length xs) 0))
      else case array_index key of
             Some i \<Rightarrow> if i < length xs then Some (xs ! i) else None
           | None \<Rightarrow> None)"
| "own_property (Str s) key =
     (if key = ''length'' then Some (Num (Finite False (length s) 0))
      else case array_index key of
             Some i \<Rightarrow> if i < length s then Some (Str [s ! i]) else None
           | None \<Rightarrow> None)"
| "own_property _ key = None"

text \<open>The runtime: \<open>inherited acc key\<close> is the outcome of reading \<open>key\<close> on a value
  \<open>acc\<close> that has no own property \<open>key\<close>, through the prototypes of \<open>acc\<close>. It is
  \<^verbatim>\<open>undefined\<close> when no prototype has the member, the member when one has it, and
  an error when the member is an accessor that raises.\<close>

type_synonym prototypes = "jsval \<Rightarrow> string \<Rightarrow> error + jsval"

definition nullish :: "jsval \<Rightarrow> bool" where
  "nullish v = (v = Undefined \<or> v = Null)"

text \<open>\<^verbatim>\<open>acc[key]\<close> raises a \<^verbatim>\<open>TypeError\<close> on \<^verbatim>\<open>undefined\<close> and \<^verbatim>\<open>null\<close>, and reads
  the own property or else the inherited member of any other value;
  \<^verbatim>\<open>acc?.[key]\<close> is \<^verbatim>\<open>undefined\<close> on \<^verbatim>\<open>undefined\<close> and \<^verbatim>\<open>null\<close>, and \<^verbatim>\<open>acc[key]\<close>
  elsewhere.\<close>

definition member :: "prototypes \<Rightarrow> jsval \<Rightarrow> string \<Rightarrow> error + jsval" where
  "member inherited acc key =
     (if nullish acc then Inl TypeError
      else case own_property acc key of
             Some v \<Rightarrow> Inr v
           | None \<Rightarrow> inherited acc key)"

definition optional_member :: "prototypes \<Rightarrow> jsval \<Rightarrow> string \<Rightarrow> error + jsval" where
  "optional_member inherited acc key =
     (if nullish acc then Inr Undefined else member inherited acc key)"

section \<open>The path resolver\<close>

text \<open>\<^verbatim>\<open>path.split('.')\<close>: the segments between the dots, empty segments kept.\<close>

fun split_dot :: "string \<Rightarrow> string list" where
  "split_dot [] = [[]]"
| "split_dot (c # cs) =
     (if c = CHR ''.'' then [] # split_dot cs
      else case split_dot cs of
             w # ws \<Rightarrow> (c # w) # ws
           | [] \<Rightarrow> [[c]])"

text \<open>\<^verbatim>\<open>segments.reduce((acc, key) => acc?.[key], obj)\<close>.\<close>

fun reduce_path :: "prototypes \<Rightarrow> jsval \<Rightarrow> string list \<Rightarrow> error + jsval" where
  "reduce_path inherited acc [] = Inr acc"
| "reduce_path inherited acc (key # keys) =
     (case optional_member inherited acc key of
        Inl err \<Rightarrow> Inl err
      | Inr v \<Rightarrow> reduce_path inherited v keys)"

definition getValueByPath :: "prototypes \<Rightarrow> jsval \<Rightarrow> string \<Rightarrow> error + jsval" where
  "getValueByPath inherited obj path = reduce_path inherited obj (split_dot path)"

section \<open>The comparator factory\<close>

text \<open>The collation primitive \<^verbatim>\<open>x.localeCompare(y, 'de-DE', {sensitivity: 'base'})\<close>
  belongs to the runtime; the comparators take it as the parameter \<open>localeCompare\<close>,
  next to the prototypes.\<close>

type_synonym collator = "string \<Rightarrow> string \<Rightarrow> int"

text \<open>The argument \<^verbatim>\<open>keyOrKeys\<close> is one path or an array of paths:
  \<^verbatim>\<open>Array.isArray(keyOrKeys) ? keyOrKeys : [keyOrKeys]\<close>.\<close>

datatype keyOrKeys = One string | Many "string list"

fun keys_of :: "keyOrKeys \<Rightarrow> string list" where
  "keys_of (Many keys) = keys"
| "keys_of (One key) = [key]"

subsection \<open>The four-group comparator\<close>

definition getSortGroup :: "string \<Rightarrow> int" where
  "getSortGroup value =
     (case value of
        [] \<Rightarrow> 3
      | first # _ \<Rightarrow>
          if re_letter_i first then 0
          else if re_digit first then 1
          else 2)"

fun getFirstValid :: "prototypes \<Rightarrow> string list \<Rightarrow> jsval \<Rightarrow> error + string" where
  "getFirstValid inherited [] item = Inr []"
| "getFirstValid inherited (key # keys) item =
     (case getValueByPath inherited item key of
        Inl err \<Rightarrow> Inl err
      | Inr (Num x) \<Rightarrow> Inr (String_number x)
      | Inr (Str s) \<Rightarrow>
          if trim s \<noteq> [] then Inr (toLowerCase (trim s))
          else getFirstValid inherited keys item
      | Inr _ \<Rightarrow> getFirstValid inherited keys item)"

definition createDeepPropertySorter ::
  "prototypes \<Rightarrow> collator \<Rightarrow> keyOrKeys \<Rightarrow> jsval \<Rightarrow> jsval \<Rightarrow> error + int" where
  "createDeepPropertySorter inherited localeCompare keyOrKeys a b =
     (let keys = keys_of keyOrKeys in
      case getFirstValid inherited keys a of
        Inl err \<Rightarrow> Inl err
      | Inr aVal \<Rightarrow>
         (case getFirstValid inherited keys b of
            Inl err \<Rightarrow> Inl err
          | Inr bVal \<Rightarrow>
              let aGroup = getSortGroup aVal; bGroup = getSortGroup bVal in
              if aGroup \<noteq> bGroup then Inr (aGroup - bGroup)
              else Inr (localeCompare aVal bVal)))"

subsection \<open>The two-group comparator of \<^verbatim>\<open>App.js\<close>\<close>

fun App_getFirstValid :: "prototypes \<Rightarrow> string list \<Rightarrow> jsval \<Rightarrow> error + string" where
  "App_getFirstValid inherited [] item = Inr []"
| "App_getFirstValid inherited (key # keys) item =
     (case getValueByPath inherited item key of
        Inl err \<Rightarrow> Inl err
      | Inr (Str s) \<Rightarrow>
          if trim s \<noteq> [] then Inr (toLowerCase (trim s))
          else App_getFirstValid inherited keys item
      | Inr _ \<Rightarrow> App_getFirstValid inherited keys item)"

text \<open>\<^verbatim>\<open>/^[a-z]/i.test(value)\<close>.\<close>

definition starts_with_letter :: "string \<Rightarrow> bool" where
  "starts_with_letter value = (case value of [] \<Rightarrow> False | c # _ \<Rightarrow> re_letter_i c)"

definition App_createDeepPropertySorter ::
  "prototypes \<Rightarrow> collator \<Rightarrow> keyOrKeys \<Rightarrow> jsval \<Rightarrow> jsval \<Rightarrow> error + int" where
  "App_createDeepPropertySorter inherited localeCompare keyOrKeys a b =
     (let keys = keys_of keyOrKeys in
      case App_getFirstValid inherited keys a of
        Inl err \<Rightarrow> Inl err
      | Inr aVal \<Rightarrow>
         (case App_getFirstValid inherited keys b of
            Inl err \<Rightarrow> Inl err
          | Inr bVal \<Rightarrow>
              let aIsLetter = starts_with_letter aVal;
                  bIsLetter = starts_with_letter bVal in
              if aIsLetter \<and> \<not> bIsLetter then Inr (- 1)
              else if \<not> aIsLetter \<and> bIsLetter then Inr 1
              else Inr (localeCompare aVal bVal)))"

section \<open>Notions of the specification\<close>

text \<open>The ASCII letters and digits, listed.\<close>

definition ascii_letter :: "char \<Rightarrow> bool" where
  "ascii_letter c = (c \<in> set ''abcdefghijklmnopqrstuvwxyzABCDEFGHIJKLMNOPQRSTUVWXYZ'')"

definition ascii_digit :: "char \<Rightarrow> bool" where
  "ascii_digit c = (c \<in> set ''0123456789'')"

text \<open>A resolved value is usable when it is a number, or a string that is not
  blank.\<close>

definition usable :: "jsval \<Rightarrow> bool" where
  "usable v = (case v of Num x \<Rightarrow> True | Str s \<Rightarrow> trim s \<noteq> [] | _ \<Rightarrow> False)"

text \<open>A number below zero (the negative zero is not), and the magnitude of a
  number.\<close>

definition negative :: "jsnum \<Rightarrow> bool" where
  "negative x = (case x of NegInfinity \<Rightarrow> True | Finite neg s e \<Rightarrow> neg \<and> s \<noteq> 0 | _ \<Rightarrow> False)"

fun magnitude :: "jsnum \<Rightarrow> jsnum" where
  "magnitude NaN = NaN"
| "magnitude PosInfinity = PosInfinity"
| "magnitude NegInfinity = PosInfinity"
| "magnitude (Finite neg s e) = Finite False s e"

text \<open>The characters of the decimal notation of a finite number.\<close>

definition plain :: "char \<Rightarrow> bool" where
  "plain c = (c \<in> set ''0123456789.e+-'')"

text \<open>A part of the standard library, for concrete instances; the general statements
  are about every runtime. A value that is not \<^verbatim>\<open>undefined\<close> or \<^verbatim>\<open>null\<close> inherits
  \<^verbatim>\<open>constructor\<close>, the function that makes values of its kind; a \<open>Native\<close> value is
  taken as a function here, which has a \<^verbatim>\<open>name\<close> and whose \<^verbatim>\<open>caller\<close> and
  \<^verbatim>\<open>arguments\<close> raise. The other keys that the instances read (\<^verbatim>\<open>alias\<close>, \<^verbatim>\<open>c\<close>,
  ...) name no member of the library and read as \<^verbatim>\<open>undefined\<close>; the members that are
  not listed (\<^verbatim>\<open>toString\<close>, ...) are read by no instance.\<close>

fun constructor_name :: "jsval \<Rightarrow> string" where
  "constructor_name (Bool b) = ''Boolean''"
| "constructor_name (Num x) = ''Number''"
| "constructor_name (Str s) = ''String''"
| "constructor_name (Arr xs) = ''Array''"
| "constructor_name (Native name) = ''Function''"
| "constructor_name _ = ''Object''"

definition standard_members :: prototypes where
  "standard_members acc key =
     (if key = ''constructor'' then Inr (Native (constructor_name acc))
      else case acc of
             Native name \<Rightarrow>
               if key = ''name'' then Inr (Str name)
               else if key = ''caller'' \<or> key = ''arguments'' then Inl TypeError
               else Inr Undefined
           | _ \<Rightarrow> Inr Undefined)"

text \<open>A sample collator, for concrete instances: the order of the code units.\<close>

fun code_unit_order :: collator where
  "code_unit_order [] [] = 0"
| "code_unit_order [] (y # ys) = - 1"
| "code_unit_order (x # xs) [] = 1"
| "code_unit_order (x # xs) (y # ys) =
     (if code_unit x < code_unit y then - 1
      else if code_unit y < code_unit x then 1
      else code_unit_order xs ys)"

section \<open>Basic facts\<close>

lemma re_digit_ascii: "re_digit c = ascii_digit c"
proof -
  have "\<forall>c. re_digit c = ascii_digit c" by code_simp
  then show ?thesis ..
qed

lemma re_letter_i_ascii: "re_letter_i c = ascii_letter c"
proof -
  have "\<forall>c. re_letter_i c = ascii_letter c" by code_simp
  then show ?thesis ..
qed

lemma optional_member_nullish:
  "nullish acc \<Longrightarrow> optional_member rt acc key = Inr Undefined"
  by (simp add: optional_member_def)

lemma optional_member_own:
  "own_property acc key = Some v \<Longrightarrow> optional_member rt acc key = Inr v"
  by (cases acc) (simp_all add: optional_member_def member_def nullish_def)

lemma optional_member_inherited:
  "\<not> nullish acc \<Longrightarrow> own_property acc key = None \<Longrightarrow>
   optional_member rt acc key = rt acc key"
  by (simp add: optional_member_def member_def)

lemma reduce_path_append:
  "reduce_path rt acc (xs @ ys) =
     (case reduce_path rt acc xs of Inl err \<Rightarrow> Inl err | Inr v \<Rightarrow> reduce_path rt v ys)"
proof (induction xs arbitrary: acc)
  case Nil
  show ?case by simp
next
  case (Cons x xs)
  then show ?case by (cases "optional_member rt acc x") simp_all
qed

lemma reduce_path_Undefined: "reduce_path rt Undefined keys = Inr Undefined"
  by (induction keys) (simp_all add: optional_member_nullish nullish_def)

lemma reduce_path_nullish:
  "nullish v \<Longrightarrow> reduce_path rt v (key # keys) = Inr Undefined"
  by (simp add: optional_member_nullish reduce_path_Undefined)

lemma getFirstValid_skip:
  "getValueByPath rt item key = Inr v \<Longrightarrow> \<not> usable v \<Longrightarrow>
   getFirstValid rt (key # keys) item = getFirstValid rt keys item"
  by (cases v) (simp_all add: usable_def)

lemma getFirstValid_skip_prefix:
  "\<forall>k\<in>set before. \<exists>v. getValueByPath rt item k = Inr v \<and> \<not> usable v \<Longrightarrow>
   getFirstValid rt (before @ keys) item = getFirstValid rt keys item"
proof (induction before)
  case Nil
  show ?case by simp
next
  case (Cons k before)
  then obtain v where "getValueByPath rt item k = Inr v" "\<not> usable v" by auto
  then have "getFirstValid rt (k # before @ keys) item = getFirstValid rt (before @ keys) item"
    by (rule getFirstValid_skip)
  with Cons show ?case by simp
qed

lemma sorter_eq:
  "getFirstValid rt (keys_of k) a = Inr aVal \<Longrightarrow> getFirstValid rt (keys_of k) b = Inr bVal \<Longrightarrow>
   createDeepPropertySorter rt lc k a b =
     Inr (if getSortGroup aVal \<noteq> getSortGroup bVal
          then getSortGroup aVal - getSortGroup bVal else lc aVal bVal)"
  by (simp add: createDeepPropertySorter_def Let_def)

lemma getSortGroup_range: "getSortGroup v \<in> {0, 1, 2, 3}"
  by (simp add: getSortGroup_def split: list.split)

lemma getSortGroup_letter: "ascii_letter c \<Longrightarrow> getSortGroup (c # rest) = 0"
  by (simp add: getSortGroup_def re_letter_i_ascii)

lemma getSortGroup_not_letter:
  "v = [] \<or> (\<exists>c rest. v = c # rest \<and> \<not> ascii_letter c) \<Longrightarrow> 0 < getSortGroup v"
  by (auto simp: getSortGroup_def re_letter_i_ascii)


lemma App_sorter_eq:
  "App_getFirstValid rt (keys_of k) a = Inr aVal \<Longrightarrow> App_getFirstValid rt (keys_of k) b = Inr bVal \<Longrightarrow>
   App_createDeepPropertySorter rt lc k a b =
     Inr (if starts_with_letter aVal \<and> \<not> starts_with_letter bVal then - 1
          else if \<not> starts_with_letter aVal \<and> starts_with_letter bVal then 1
          else lc aVal bVal)"
  by (simp add: App_createDeepPropertySorter_def Let_def)

lemma empty_path_list_ties:
  "lc [] [] = 0 \<Longrightarrow> createDeepPropertySorter rt lc (Many []) a b = Inr 0"
  by (simp add: createDeepPropertySorter_def getSortGroup_def)

lemma digit_char_digit: "d < 10 \<Longrightarrow> re_digit (digit_char d)"
  by (simp add: re_digit_def digit_char_def code_unit_def)

lemma decimal_not_Nil: "decimal n \<noteq> []"
  by (subst decimal.simps) simp

lemma decimal_digits: "c \<in> set (decimal n) \<Longrightarrow> re_digit c"
proof (induction n rule: decimal.induct)
  case (1 n)
  show ?case
  proof (cases "n < 10")
    case True
    with "1.prems" show ?thesis
      by (subst (asm) decimal.simps) (simp add: digit_char_digit)
  next
    case False
    with "1.prems" have "c \<in> set (decimal (n div 10)) \<or> c = digit_char (n mod 10)"
      by (subst (asm) decimal.simps) auto
    with False "1.IH" show ?thesis
      by (auto simp: digit_char_digit)
  qed
qed

lemma positive_toString_head: "\<exists>c rest. positive_toString s e = c # rest \<and> re_digit c"
proof -
  obtain s' e' where sh: "shortest s e = (s', e')"
    by force
  obtain d ds where ds: "decimal s' = d # ds"
    using decimal_not_Nil [of s'] by (cases "decimal s'") simp_all
  have d: "re_digit d"
    using decimal_digits [of d s'] ds by simp
  have zero: "re_digit (CHR ''0'')"
    by code_simp
  show ?thesis
    unfolding positive_toString_def sh
    using d zero by (simp add: ds Let_def take_Cons')
qed

lemma getSortGroup_digit: "re_digit c \<Longrightarrow> getSortGroup (c # rest) = 1"
proof -
  assume "re_digit c"
  then have "ascii_digit c" by (simp add: re_digit_ascii)
  then have "\<not> ascii_letter c" by (auto simp: ascii_digit_def ascii_letter_def)
  with \<open>re_digit c\<close> show ?thesis by (simp add: getSortGroup_def re_letter_i_ascii)
qed

lemma String_number_negative:
  "negative x \<Longrightarrow> \<exists>rest. String_number x = CHR ''-'' # rest"
  by (cases x) (simp_all add: negative_def)

lemma getSortGroup_minus: "getSortGroup (CHR ''-'' # rest) = 2"
proof -
  have "\<not> re_letter_i (CHR ''-'')" "\<not> re_digit (CHR ''-'')" by code_simp+
  then show ?thesis by (simp add: getSortGroup_def)
qed

lemma positive_toString_group: "getSortGroup (positive_toString s e) = 1"
  using positive_toString_head [of s e] by (auto simp: getSortGroup_digit)

lemma code_unit_digit_char: "d < 10 \<Longrightarrow> code_unit (digit_char d) = 48 + d"
  by (simp add: digit_char_def code_unit_def)

lemma digits_value_snoc:
  "digits_value (ds @ [c]) = 10 * digits_value ds + (code_unit c - 48)"
  by simp

lemma digits_value_decimal: "digits_value (decimal n) = n"
proof (induction n rule: decimal.induct)
  case (1 n)
  show ?case
  proof (cases "n < 10")
    case True
    then have "decimal n = [] @ [digit_char n]"
      by (subst decimal.simps) simp
    then have "digits_value (decimal n) = code_unit (digit_char n) - 48"
      by (simp only: digits_value_snoc) simp
    with True show ?thesis by (simp add: code_unit_digit_char)
  next
    case False
    then have "decimal n = decimal (n div 10) @ [digit_char (n mod 10)]"
      by (subst decimal.simps) simp
    then have "digits_value (decimal n)
        = 10 * digits_value (decimal (n div 10)) + (code_unit (digit_char (n mod 10)) - 48)"
      by (simp only: digits_value_snoc)
    with False "1.IH" show ?thesis by (simp add: code_unit_digit_char)
  qed
qed

lemma array_index_decimal: "array_index (decimal i) = Some i"
  using decimal_digits [of _ i]
  by (simp add: array_index_def decimal_not_Nil digits_value_decimal list_all_iff
      del: digits_value.simps)

lemma decimal_not_length: "decimal i \<noteq> ''length''"
proof
  assume "decimal i = ''length''"
  then have "CHR ''l'' \<in> set (decimal i)" by simp
  then have "re_digit (CHR ''l'')" by (rule decimal_digits)
  then show False by (simp add: re_digit_def code_unit_def)
qed

lemma own_property_index:
  "i < length s \<Longrightarrow> own_property (Str s) (decimal i) = Some (Str [s ! i])"
  by (simp add: array_index_decimal decimal_not_length)

lemma starts_with_letter_group: "starts_with_letter v \<longleftrightarrow> getSortGroup v = 0"
  by (simp add: starts_with_letter_def getSortGroup_def split: list.split)

section \<open>Extraction of the first usable value\<close>

text \<open>
  Claim C1. When the paths before \<open>key\<close> resolve to values that are not usable and
  \<open>key\<close> resolves to a number \<open>x\<close> (finite or not), \<open>getFirstValid\<close> returns
  \<open>String(x)\<close> and does not look at the paths after \<open>key\<close>. A zero extracts as
  \<open>''0''\<close>, which is in the digit group 1.
\<close>

theorem number_is_first_usable:
  assumes "\<forall>k\<in>set before. \<exists>v. getValueByPath rt item k = Inr v \<and> \<not> usable v"
    and "getValueByPath rt item key = Inr (Num x)"
  shows "getFirstValid rt (before @ key # after) item = Inr (String_number x)
       \<and> (\<forall>neg e. x = Finite neg 0 e \<longrightarrow>
            getFirstValid rt (before @ key # after) item = Inr ''0'' \<and> getSortGroup ''0'' = 1)"
proof -
  have "getFirstValid rt (before @ key # after) item = getFirstValid rt (key # after) item"
    using assms(1) by (rule getFirstValid_skip_prefix)
  also have "\<dots> = Inr (String_number x)"
    using assms(2) by simp
  finally have r: "getFirstValid rt (before @ key # after) item = Inr (String_number x)" .
  have "getSortGroup ''0'' = 1"
    by (simp add: getSortGroup_def re_letter_i_def re_digit_def code_unit_def)
  with r show ?thesis by auto
qed

theorem number_is_first_usable_witness:
  "getFirstValid standard_members [''alias'', ''count'', ''name'']
     (Obj [(''alias'', Str ''  ''), (''count'', Num (Finite False 0 0)), (''name'', Str ''Alpha'')])
     = Inr ''0'' \<and> getSortGroup ''0'' = 1"
proof -
  let ?item = "Obj [(''alias'', Str ''  ''), (''count'', Num (Finite False 0 0)),
                    (''name'', Str ''Alpha'')]"
  have blank: "trim ''  '' = []"
    by (simp add: trim_def is_white_space_def code_unit_def)
  have "getValueByPath standard_members ?item ''alias'' = Inr (Str ''  '')"
    by code_simp
  then have h1: "\<forall>k\<in>set [''alias'']. \<exists>v. getValueByPath standard_members ?item k = Inr v \<and> \<not> usable v"
    by (simp add: usable_def blank)
  have h2: "getValueByPath standard_members ?item ''count'' = Inr (Num (Finite False 0 0))"
    by code_simp
  from number_is_first_usable [OF h1 h2, of "[''name'']"] show ?thesis
    by auto
qed

section \<open>The form of the extracted value\<close>

text \<open>
  Trimming and lower-casing are idempotent and commute, so an extracted string is in
  trimmed lower case; so is the decimal notation of a finite number. The three
  numbers that are not finite print with capitals.
\<close>

lemma code_unit_lower_char:
  "code_unit (lower_char c) =
     (if (65 \<le> code_unit c \<and> code_unit c \<le> 90)
          \<or> (192 \<le> code_unit c \<and> code_unit c \<le> 222 \<and> code_unit c \<noteq> 215)
      then code_unit c + 32 else code_unit c)"
  by (simp add: lower_char_def code_unit_def Let_def)

lemma code_unit_eqI: "code_unit c = code_unit d \<Longrightarrow> c = d"
  by (simp add: code_unit_def)

lemma lower_char_idem: "lower_char (lower_char c) = lower_char c"
  by (rule code_unit_eqI) (simp add: code_unit_lower_char)

lemma white_space_lower_char: "is_white_space (lower_char c) = is_white_space c"
  by (auto simp: is_white_space_def code_unit_lower_char)

lemma plain_fixed: "plain c \<Longrightarrow> lower_char c = c \<and> \<not> is_white_space c"
  by (auto simp: plain_def lower_char_def is_white_space_def code_unit_def)

lemma toLowerCase_idem: "toLowerCase (toLowerCase s) = toLowerCase s"
  by (simp add: toLowerCase_def lower_char_idem)

lemma dropWhile_white_space_lower:
  "dropWhile is_white_space (map lower_char s) = map lower_char (dropWhile is_white_space s)"
  by (induction s) (simp_all add: white_space_lower_char)

lemma trim_toLowerCase: "trim (toLowerCase s) = toLowerCase (trim s)"
  by (simp add: trim_def toLowerCase_def dropWhile_white_space_lower rev_map)

lemma trim_fixed:
  assumes "s = [] \<or> (\<not> is_white_space (hd s) \<and> \<not> is_white_space (last s))"
  shows "trim s = s"
proof (cases "s = []")
  case True
  then show ?thesis by (simp add: trim_def)
next
  case False
  with assms have "dropWhile is_white_space s = s"
    by (simp add: dropWhile_eq_self_iff)
  moreover from False assms have "dropWhile is_white_space (rev s) = rev s"
    by (simp add: dropWhile_eq_self_iff hd_rev)
  ultimately show ?thesis by (simp add: trim_def)
qed

lemma trim_ends:
  "trim s = [] \<or> (\<not> is_white_space (hd (trim s)) \<and> \<not> is_white_space (last (trim s)))"
proof (cases "trim s = []")
  case True
  then show ?thesis by simp
next
  case False
  define u where "u = dropWhile is_white_space s"
  define w where "w = dropWhile is_white_space (rev u)"
  have t: "trim s = rev w" by (simp add: trim_def u_def w_def)
  with False have w: "w \<noteq> []" by simp
  then have "\<not> is_white_space (hd w)"
    unfolding w_def by (rule hd_dropWhile)
  then have last_t: "\<not> is_white_space (last (trim s))"
    using w by (simp add: t last_rev)
  from w have u: "u \<noteq> []" by (auto simp: w_def)
  then have "\<not> is_white_space (hd u)"
    unfolding u_def by (rule hd_dropWhile)
  moreover have "last w = last (rev u)"
  proof -
    have "rev u = takeWhile is_white_space (rev u) @ w"
      by (simp add: w_def)
    then show ?thesis using w by (metis last_appendR)
  qed
  ultimately have "\<not> is_white_space (hd (trim s))"
    using w u by (simp add: t hd_rev last_rev)
  with last_t show ?thesis by simp
qed

lemma trim_idem: "trim (trim s) = trim s"
  using trim_ends [of s] by (rule trim_fixed)

lemma normal_string: "toLowerCase (trim (toLowerCase (trim s))) = toLowerCase (trim s)"
  by (simp add: trim_toLowerCase trim_idem toLowerCase_idem)

lemma plain_normal:
  assumes "\<forall>c\<in>set r. plain c"
  shows "toLowerCase (trim r) = r"
proof -
  have "trim r = r"
  proof (rule trim_fixed, cases "r = []")
    case False
    then have "hd r \<in> set r" "last r \<in> set r" by simp_all
    with assms show "r = [] \<or> (\<not> is_white_space (hd r) \<and> \<not> is_white_space (last r))"
      by (auto dest: plain_fixed)
  qed simp
  moreover have "map lower_char r = r"
    using assms by (intro map_idI) (simp add: plain_fixed)
  ultimately show ?thesis by (simp add: toLowerCase_def)
qed

lemma digit_plain: "re_digit c \<Longrightarrow> plain c"
  by (auto simp: re_digit_ascii ascii_digit_def plain_def)

lemma decimal_plain: "c \<in> set (decimal n) \<Longrightarrow> plain c"
  by (auto dest: decimal_digits digit_plain)

lemma positive_toString_plain: "c \<in> set (positive_toString s e) \<Longrightarrow> plain c"
proof -
  assume c: "c \<in> set (positive_toString s e)"
  obtain s' e' where sh: "shortest s e = (s', e')"
    by force
  define ds where "ds = decimal s'"
  have ds: "\<And>d. d \<in> set ds \<Longrightarrow> plain d"
    unfolding ds_def by (rule decimal_plain)
  have "ds \<noteq> []"
    unfolding ds_def by (rule decimal_not_Nil)
  then have hd: "plain (hd ds)" and tl: "\<And>d. d \<in> set (tl ds) \<Longrightarrow> plain d"
    by (auto intro: ds dest: list.set_sel(2))
  have tk: "\<And>d n. d \<in> set (take n ds) \<Longrightarrow> plain d"
    and dr: "\<And>d n. d \<in> set (drop n ds) \<Longrightarrow> plain d"
    by (auto dest: in_set_takeD in_set_dropD intro: ds)
  have sym: "plain (CHR ''0'')" "plain (CHR ''.'')" "plain (CHR ''e'')" "plain (CHR ''+'')"
    "plain (CHR ''-'')"
    by (simp_all add: plain_def)
  have ex: "\<And>d n. d \<in> set (decimal n) \<Longrightarrow> plain d"
    by (rule decimal_plain)
  let ?n = "e' + int (length ds)"
  consider (whole) "int (length ds) \<le> ?n \<and> ?n \<le> 21"
    | (point) "\<not> (int (length ds) \<le> ?n \<and> ?n \<le> 21)" "0 < ?n \<and> ?n \<le> 21"
    | (small) "\<not> (int (length ds) \<le> ?n \<and> ?n \<le> 21)" "\<not> (0 < ?n \<and> ?n \<le> 21)"
        "- 6 < ?n \<and> ?n \<le> 0"
    | (expo) "\<not> (int (length ds) \<le> ?n \<and> ?n \<le> 21)" "\<not> (0 < ?n \<and> ?n \<le> 21)"
        "\<not> (- 6 < ?n \<and> ?n \<le> 0)"
    by blast
  then show ?thesis
  proof cases
    case whole
    with c have "c \<in> set ds \<or> c = CHR ''0''"
      by (auto simp: positive_toString_def sh ds_def [symmetric] Let_def)
    then show ?thesis by (auto intro: ds sym)
  next
    case point
    with c have "c \<in> set (take (nat ?n) ds) \<or> c = CHR ''.'' \<or> c \<in> set (drop (nat ?n) ds)"
      by (auto simp: positive_toString_def sh ds_def [symmetric] Let_def)
    then show ?thesis by (auto intro: tk dr sym)
  next
    case small
    with c have "c = CHR ''0'' \<or> c = CHR ''.'' \<or> c \<in> set ds"
      by (auto simp: positive_toString_def sh ds_def [symmetric] Let_def)
    then show ?thesis by (auto intro: ds sym)
  next
    case expo
    with c have "c \<in> set ds \<or> c = hd ds \<or> c \<in> set (tl ds) \<or> c = CHR ''.'' \<or> c = CHR ''e''
        \<or> c = CHR ''-'' \<or> c = CHR ''+'' \<or> (\<exists>m. c \<in> set (decimal m))"
      by (auto simp: positive_toString_def sh ds_def [symmetric] Let_def split: if_splits)
    then show ?thesis by (auto intro: ds hd tl sym ex)
  qed
qed

lemma String_number_normal:
  assumes "x \<notin> {NaN, PosInfinity, NegInfinity}"
  shows "toLowerCase (trim (String_number x)) = String_number x"
proof -
  from assms obtain neg s e where x: "x = Finite neg s e"
    by (cases x) simp_all
  have "\<forall>c\<in>set (String_number (Finite neg s e)). plain c"
    by (auto simp: plain_def dest: positive_toString_plain)
  then show ?thesis
    unfolding x by (rule plain_normal)
qed

lemma getFirstValid_normal:
  "getFirstValid rt keys item = Inr r \<Longrightarrow>
   toLowerCase (trim r) = r \<or> r \<in> {''NaN'', ''Infinity'', ''-Infinity''}"
proof (induction keys)
  case Nil
  then show ?case by (simp add: trim_def toLowerCase_def)
next
  case (Cons key keys)
  from Cons.prems obtain v where v: "getValueByPath rt item key = Inr v"
    by (cases "getValueByPath rt item key") simp_all
  show ?case
  proof (cases v)
    case (Num x)
    with v Cons.prems have r: "r = String_number x" by simp
    show ?thesis
    proof (cases "x \<in> {NaN, PosInfinity, NegInfinity}")
      case True
      with r show ?thesis by auto
    next
      case False
      then have "toLowerCase (trim (String_number x)) = String_number x"
        by (rule String_number_normal)
      then show ?thesis unfolding r by (rule disjI1)
    qed
  next
    case (Str s)
    show ?thesis
    proof (cases "trim s = []")
      case True
      with v Str Cons show ?thesis by simp
    next
      case False
      with v Str Cons.prems have "r = toLowerCase (trim s)" by simp
      then show ?thesis by (simp add: normal_string)
    qed
  qed (use v Cons in simp_all)
qed

lemma App_getFirstValid_normal:
  "App_getFirstValid rt keys item = Inr r \<Longrightarrow> toLowerCase (trim r) = r"
proof (induction keys)
  case Nil
  then show ?case by (simp add: trim_def toLowerCase_def)
next
  case (Cons key keys)
  from Cons.prems obtain v where v: "getValueByPath rt item key = Inr v"
    by (cases "getValueByPath rt item key") simp_all
  show ?case
  proof (cases v)
    case (Str s)
    show ?thesis
    proof (cases "trim s = []")
      case True
      with v Str Cons show ?thesis by simp
    next
      case False
      with v Str Cons.prems have "r = toLowerCase (trim s)" by simp
      then show ?thesis by (simp add: normal_string)
    qed
  qed (use v Cons in simp_all)
qed

text \<open>
  Claim C3. The extracted value is to equal its own trimmed lower-case form. The number
  branch of \<open>getFirstValid\<close> returns \<^verbatim>\<open>String(value)\<close> as it is: \<^verbatim>\<open>{x: Infinity}\<close>
  extracts as \<^verbatim>\<open>Infinity\<close>, whose trimmed lower-case form is \<^verbatim>\<open>infinity\<close>, the value
  that the string \<^verbatim>\<open>' Infinity '\<close> extracts to.
\<close>

theorem number_keeps_capitals:
  "getFirstValid standard_members [''x''] (Obj [(''x'', Num PosInfinity)]) = Inr ''Infinity''
   \<and> toLowerCase (trim ''Infinity'') = ''infinity''
   \<and> toLowerCase (trim ''Infinity'') \<noteq> ''Infinity''
   \<and> getFirstValid standard_members [''x''] (Obj [(''x'', Str '' Infinity '')]) = Inr ''infinity''"
  by code_simp

section \<open>Values that are skipped\<close>

text \<open>
  Claim C4. When a path resolves to a blank string (empty, or white space only), to a
  boolean, to \<^verbatim>\<open>null\<close>, to \<^verbatim>\<open>undefined\<close>, to an array, to an object or to a function,
  the extraction goes on with the next path, in both versions of the comparator:
  its outcome is that of the remaining paths, and the skipped value raises nothing.
\<close>

theorem unusable_is_skipped:
  assumes "getValueByPath rt item key = Inr v"
    and "(\<exists>s. v = Str s \<and> trim s = []) \<or> (\<exists>b. v = Bool b) \<or> v = Null \<or> v = Undefined
         \<or> (\<exists>xs. v = Arr xs) \<or> (\<exists>props. v = Obj props) \<or> (\<exists>name. v = Native name)"
  shows "getFirstValid rt (key # keys) item = getFirstValid rt keys item
       \<and> App_getFirstValid rt (key # keys) item = App_getFirstValid rt keys item"
proof -
  from assms have "getFirstValid rt (key # keys) item = getFirstValid rt keys item"
    by auto
  moreover from assms
  have "App_getFirstValid rt (key # keys) item = App_getFirstValid rt keys item"
    by auto
  ultimately show ?thesis by simp
qed

text \<open>\<^verbatim>\<open>{alias: '', profile: {name: 'John'}}\<close> with the paths \<^verbatim>\<open>alias\<close> and
  \<^verbatim>\<open>profile.name\<close>.\<close>

theorem unusable_is_skipped_witness:
  "getFirstValid standard_members [''alias'', ''profile.name'']
     (Obj [(''alias'', Str []), (''profile'', Obj [(''name'', Str ''John'')])]) = Inr ''john''
   \<and> App_getFirstValid standard_members [''alias'', ''profile.name'']
     (Obj [(''alias'', Str []), (''profile'', Obj [(''name'', Str ''John'')])]) = Inr ''john''"
proof -
  let ?item = "Obj [(''alias'', Str []), (''profile'', Obj [(''name'', Str ''John'')])]"
  have h1: "getValueByPath standard_members ?item ''alias'' = Inr (Str [])"
    by code_simp
  have h2: "(\<exists>s. Str [] = Str s \<and> trim s = []) \<or> (\<exists>b. Str [] = Bool b) \<or> Str [] = Null
      \<or> Str [] = Undefined \<or> (\<exists>xs. Str [] = Arr xs) \<or> (\<exists>props. Str [] = Obj props)
      \<or> (\<exists>name. Str [] = Native name)"
    by (simp add: trim_def)
  have next_path: "getFirstValid standard_members [''profile.name''] ?item = Inr ''john''"
    "App_getFirstValid standard_members [''profile.name''] ?item = Inr ''john''"
    by code_simp+
  from unusable_is_skipped [OF h1 h2, of "[''profile.name'']"] show ?thesis
    by (simp only: next_path)
qed

section \<open>Classification\<close>

text \<open>
  Claim C5. The group of a string is 3 (missing) exactly when the string is empty.
  The group of a non-empty string depends on its first character only: 0 for an
  ASCII letter, 1 for an ASCII digit, 2 for any other character, such as the
  non-ASCII letter U+00E4.
\<close>

theorem classification:
  "(getSortGroup v = 3 \<longleftrightarrow> v = [])
   \<and> getSortGroup (c # rest) = (if ascii_letter c then 0 else if ascii_digit c then 1 else 2)
   \<and> getSortGroup (c # rest) = getSortGroup [c]
   \<and> getSortGroup (CHR 0xE4 # rest) = 2"
proof -
  have "\<not> ascii_letter (CHR 0xE4)" "\<not> ascii_digit (CHR 0xE4)"
    by code_simp+
  then show ?thesis
    by (auto simp: getSortGroup_def re_letter_i_ascii re_digit_ascii split: list.split)
qed

section \<open>Ordering by group\<close>

text \<open>
  Claim C2. With \<open>aVal\<close> and \<open>bVal\<close> the values extracted from the records \<open>a\<close> and
  \<open>b\<close>: when their groups differ the comparator returns the difference of the
  groups, so the record of the lower group (letter 0, digit 1, symbol 2, missing 3)
  sorts first in either order of the arguments; a value that starts with an ASCII
  letter sorts before one that starts with another character or is empty, whatever
  the rest of the two strings and whatever the collator.
\<close>

theorem group_order:
  assumes "getFirstValid rt (keys_of k) a = Inr aVal"
    and "getFirstValid rt (keys_of k) b = Inr bVal"
  shows "(getSortGroup aVal \<noteq> getSortGroup bVal \<longrightarrow>
            createDeepPropertySorter rt lc k a b = Inr (getSortGroup aVal - getSortGroup bVal))
       \<and> (getSortGroup aVal < getSortGroup bVal \<longrightarrow>
            (\<exists>r. createDeepPropertySorter rt lc k a b = Inr r \<and> r < 0)
          \<and> (\<exists>r. createDeepPropertySorter rt lc k b a = Inr r \<and> 0 < r))
       \<and> ((\<exists>c rest. aVal = c # rest \<and> ascii_letter c)
            \<and> (bVal = [] \<or> (\<exists>c rest. bVal = c # rest \<and> \<not> ascii_letter c)) \<longrightarrow>
            (\<exists>r. createDeepPropertySorter rt lc k a b = Inr r \<and> r < 0)
          \<and> (\<exists>r. createDeepPropertySorter rt lc k b a = Inr r \<and> 0 < r))"
proof -
  note ab = sorter_eq [OF assms(1) assms(2), of lc]
  note ba = sorter_eq [OF assms(2) assms(1), of lc]
  have differ: "getSortGroup aVal \<noteq> getSortGroup bVal \<longrightarrow>
      createDeepPropertySorter rt lc k a b = Inr (getSortGroup aVal - getSortGroup bVal)"
    by (simp add: ab)
  have less: "(\<exists>r. createDeepPropertySorter rt lc k a b = Inr r \<and> r < 0)
          \<and> (\<exists>r. createDeepPropertySorter rt lc k b a = Inr r \<and> 0 < r)"
    if "getSortGroup aVal < getSortGroup bVal"
    using that by (simp add: ab ba)
  have "getSortGroup aVal < getSortGroup bVal"
    if "\<exists>c rest. aVal = c # rest \<and> ascii_letter c"
      and "bVal = [] \<or> (\<exists>c rest. bVal = c # rest \<and> \<not> ascii_letter c)"
    using that getSortGroup_not_letter [of bVal] by (auto simp: getSortGroup_letter)
  with differ less show ?thesis by blast
qed

text \<open>\<^verbatim>\<open>{alias: 'Zeta'}\<close> against \<^verbatim>\<open>{alias: ' #Provider'}\<close>, sorted by \<^verbatim>\<open>'alias'\<close>.\<close>

theorem group_order_witness:
  "createDeepPropertySorter standard_members code_unit_order (One ''alias'') (Obj [(''alias'', Str ''Zeta'')])
     (Obj [(''alias'', Str '' #Provider'')]) = Inr (- 2)
   \<and> createDeepPropertySorter standard_members code_unit_order (One ''alias'') (Obj [(''alias'', Str '' #Provider'')])
     (Obj [(''alias'', Str ''Zeta'')]) = Inr 2"
proof -
  let ?a = "Obj [(''alias'', Str ''Zeta'')]" and ?b = "Obj [(''alias'', Str '' #Provider'')]"
  have a: "getFirstValid standard_members (keys_of (One ''alias'')) ?a = Inr ''zeta''"
    by code_simp
  have b: "getFirstValid standard_members (keys_of (One ''alias'')) ?b = Inr ''#provider''"
    by code_simp
  have ga: "getSortGroup ''zeta'' = 0" and gb: "getSortGroup ''#provider'' = 2"
    by (simp_all add: getSortGroup_def re_letter_i_def re_digit_def code_unit_def)
  from group_order [OF a b, of code_unit_order] group_order [OF b a, of code_unit_order] show ?thesis
    by (simp add: ga gb)
qed

section \<open>Path resolution\<close>

text \<open>
  Claim C6, as stated, fails. In \<^verbatim>\<open>{name: 'Bob'}\<close> the path \<^verbatim>\<open>name.length\<close> reaches the
  string \<^verbatim>\<open>'Bob'\<close>, which is no mapping of keys to values, and the resolution goes
  on to its length 3, as \<^verbatim>\<open>name.0\<close> goes on to its first character, instead of
  yielding \<^verbatim>\<open>undefined\<close>. With the standard library, \<^verbatim>\<open>a.b.constructor.name\<close> in
  \<^verbatim>\<open>{a: {b: 123}}\<close> passes through the number 123 to the name of its constructor,
  and \<^verbatim>\<open>constructor.caller\<close> in \<^verbatim>\<open>{}\<close> raises a \<^verbatim>\<open>TypeError\<close>.
\<close>

theorem resolve_through_string_counterexample:
  "reduce_path standard_members (Obj [(''name'', Str ''Bob'')]) [''name''] = Inr (Str ''Bob'')
   \<and> split_dot ''name.length'' = [''name'', ''length'']
   \<and> getValueByPath standard_members (Obj [(''name'', Str ''Bob'')]) ''name.length''
       = Inr (Num (Finite False 3 0))
   \<and> getValueByPath standard_members (Obj [(''name'', Str ''Bob'')]) ''name.length''
       \<noteq> Inr Undefined
   \<and> getValueByPath standard_members (Obj [(''name'', Str ''Bob'')]) ''name.0'' = Inr (Str ''B'')
   \<and> getValueByPath standard_members (Obj [(''a'', Obj [(''b'', Num (Finite False 123 0))])])
         ''a.b.constructor.name'' = Inr (Str ''Number'')
   \<and> getValueByPath standard_members (Obj []) ''constructor.caller'' = Inl TypeError"
  by code_simp

text \<open>
  Claim C6, amended. Under every runtime: when the value reached before a segment
  \<open>key\<close> is \<^verbatim>\<open>undefined\<close> or \<^verbatim>\<open>null\<close>, the path resolves to \<^verbatim>\<open>undefined\<close>, whatever
  segments follow, and nothing is raised. Any other value is read: an own property
  \<open>key\<close> is the result of the step, and without one the step is the read of the
  inherited member, which the runtime decides and which may raise. The own
  properties of a string are its length and, at the index \<open>i\<close>, its \<open>i\<close>-th character:
  in \<^verbatim>\<open>{name: 'Bob'}\<close> the path \<^verbatim>\<open>name.length\<close> resolves to 3 and \<^verbatim>\<open>name.0\<close> to
  \<^verbatim>\<open>'B'\<close>. With the standard library \<^verbatim>\<open>a.b.constructor.name\<close> in \<^verbatim>\<open>{a: {b: 123}}\<close>
  resolves to \<^verbatim>\<open>'Number'\<close>, and \<^verbatim>\<open>constructor.caller\<close> in \<^verbatim>\<open>{}\<close> raises.
\<close>

theorem resolve_short_circuit:
  "(split_dot path = before @ key # after \<and> reduce_path rt obj before = Inr v
        \<and> (v = Undefined \<or> v = Null)
      \<longrightarrow> getValueByPath rt obj path = Inr Undefined)
   \<and> (own_property acc key = Some w \<longrightarrow> optional_member rt acc key = Inr w)
   \<and> (acc \<noteq> Undefined \<and> acc \<noteq> Null \<and> own_property acc key = None
      \<longrightarrow> optional_member rt acc key = rt acc key)
   \<and> own_property (Str s) ''length'' = Some (Num (Finite False (length s) 0))
   \<and> (i < length s \<longrightarrow> own_property (Str s) (decimal i) = Some (Str [s ! i]))
   \<and> getValueByPath rt (Obj [(''name'', Str ''Bob'')]) ''name.length''
       = Inr (Num (Finite False 3 0))
   \<and> getValueByPath rt (Obj [(''name'', Str ''Bob'')]) ''name.0'' = Inr (Str ''B'')
   \<and> getValueByPath standard_members (Obj [(''a'', Obj [(''b'', Num (Finite False 123 0))])])
         ''a.b.constructor.name'' = Inr (Str ''Number'')
   \<and> getValueByPath standard_members (Obj []) ''constructor.caller'' = Inl TypeError"
proof -
  have zero: "own_property (Str ''Bob'') ''0'' = Some (Str ''B'')"
    by code_simp
  have len: "own_property (Str ''Bob'') ''length'' = Some (Num (Finite False 3 0))"
    by simp
  have bob: "getValueByPath rt (Obj [(''name'', Str ''Bob'')]) ''name.length''
       = Inr (Num (Finite False 3 0))"
    "getValueByPath rt (Obj [(''name'', Str ''Bob'')]) ''name.0'' = Inr (Str ''B'')"
    by (simp_all add: getValueByPath_def optional_member_own [OF zero]
        optional_member_own [OF len] optional_member_own [of "Obj [(''name'', Str ''Bob'')]"])
  have library: "getValueByPath standard_members
        (Obj [(''a'', Obj [(''b'', Num (Finite False 123 0))])]) ''a.b.constructor.name''
        = Inr (Str ''Number'')"
    "getValueByPath standard_members (Obj []) ''constructor.caller'' = Inl TypeError"
    by code_simp+
  have "getValueByPath rt obj path = Inr Undefined"
    if split: "split_dot path = before @ key # after"
      and pre: "reduce_path rt obj before = Inr v"
      and v: "v = Undefined \<or> v = Null"
  proof -
    from v have "reduce_path rt v (key # after) = Inr Undefined"
      by (intro reduce_path_nullish) (simp add: nullish_def)
    with split pre show ?thesis
      by (simp add: getValueByPath_def reduce_path_append)
  qed
  moreover have "optional_member rt acc key = Inr w" if "own_property acc key = Some w"
    using that by (rule optional_member_own)
  moreover have "optional_member rt acc key = rt acc key"
    if "acc \<noteq> Undefined \<and> acc \<noteq> Null \<and> own_property acc key = None"
    using that by (intro optional_member_inherited) (simp_all add: nullish_def)
  moreover have "own_property (Str s) ''length'' = Some (Num (Finite False (length s) 0))"
    by simp
  moreover have "own_property (Str s) (decimal i) = Some (Str [s ! i])" if "i < length s"
    using that by (rule own_property_index)
  ultimately show ?thesis using bob library by blast
qed

text \<open>\<^verbatim>\<open>{profile: null}\<close> with the path \<^verbatim>\<open>profile.name.first\<close>; the character 1 of
  \<^verbatim>\<open>'Bob'\<close>; the member \<^verbatim>\<open>c\<close> of the number 123, which the standard library does
  not have.\<close>

theorem resolve_short_circuit_witness:
  "getValueByPath standard_members (Obj [(''profile'', Null)]) ''profile.name.first''
     = Inr Undefined
   \<and> optional_member standard_members (Str ''Bob'') ''1'' = Inr (Str ''o'')
   \<and> optional_member standard_members (Num (Finite False 123 0)) ''c'' = Inr Undefined
   \<and> own_property (Str ''Bob'') (decimal 1) = Some (Str ''o'')"
proof -
  let ?obj = "Obj [(''profile'', Null)]"
  have h1: "split_dot ''profile.name.first'' = [''profile''] @ ''name'' # [''first'']"
    by simp
  have h2: "reduce_path standard_members ?obj [''profile''] = Inr Null"
    by code_simp
  have h3: "own_property (Str ''Bob'') ''1'' = Some (Str ''o'')"
    by code_simp
  have h4: "own_property (Num (Finite False 123 0)) ''c'' = None"
    by simp
  have h5: "standard_members (Num (Finite False 123 0)) ''c'' = Inr Undefined"
    by code_simp
  have h6: "(1 :: nat) < length ''Bob''" "''Bob'' ! 1 = CHR ''o''"
    by simp_all
  from resolve_short_circuit [of "''profile.name.first''" "[''profile'']" "''name''"
      "[''first'']" standard_members ?obj Null "Str ''Bob''" "Str ''o''" "''Bob''" 1] h1 h2
  have "getValueByPath standard_members ?obj ''profile.name.first'' = Inr Undefined"
    "own_property (Str ''Bob'') (decimal 1) = Some (Str ''o'')"
    using h6 by simp_all
  moreover from resolve_short_circuit [of _ _ "''1''" _ standard_members _ _ "Str ''Bob''"
      "Str ''o''"] h3
  have "optional_member standard_members (Str ''Bob'') ''1'' = Inr (Str ''o'')"
    by blast
  moreover from resolve_short_circuit [of _ _ "''c''" _ standard_members _ _
      "Num (Finite False 123 0)"] h4 h5
  have "optional_member standard_members (Num (Finite False 123 0)) ''c'' = Inr Undefined"
    by simp
  ultimately show ?thesis by simp
qed

section \<open>The comparator as an order\<close>



section \<open>Records without a usable value\<close>



section \<open>The two versions of the comparator\<close>

text \<open>
  Claim C9, as stated, fails in its second half: the two comparators do not differ
  in sign on every pair that the four-group scheme separates and the two-group
  scheme does not. \<^verbatim>\<open>{x: '1'}\<close> extracts to the digit-led \<^verbatim>\<open>'1'\<close> (group 1) and
  \<^verbatim>\<open>{x: '\<close>U+00E4\<^verbatim>\<open>'}\<close> to a value led by a non-ASCII character (group 2); both
  comparators put the first before the second, the two-group one through the
  collator, here the order of the code units, which like the German collation has
  the digit before the letter U+00E4.
\<close>

theorem versions_agree_counterexample:
  "getFirstValid standard_members [''x''] (Obj [(''x'', Str ''1'')]) = Inr ''1''
   \<and> getFirstValid standard_members [''x''] (Obj [(''x'', Str [CHR 0xE4])]) = Inr [CHR 0xE4]
   \<and> getSortGroup ''1'' = 1 \<and> getSortGroup [CHR 0xE4] = 2
   \<and> createDeepPropertySorter standard_members code_unit_order (One ''x'')
        (Obj [(''x'', Str ''1'')]) (Obj [(''x'', Str [CHR 0xE4])]) = Inr (- 1)
   \<and> App_createDeepPropertySorter standard_members code_unit_order (One ''x'')
        (Obj [(''x'', Str ''1'')]) (Obj [(''x'', Str [CHR 0xE4])]) = Inr (- 1)"
  by code_simp

text \<open>
  Claim C9, amended. The two comparators are not equivalent: on
  \<^verbatim>\<open>{x: 5, y: 'a'}\<close> against \<^verbatim>\<open>{x: NaN, y: ''}\<close> with the paths \<^verbatim>\<open>x\<close> and \<^verbatim>\<open>y\<close> the
  four-group comparator returns 1 and the two-group comparator returns -1, under
  every runtime and collator. On a pair that extracts to the same two values in
  both versions, neither of them letter-led (group 0) and the two in different
  groups, the four-group comparator returns the difference of the groups, and the
  two-group comparator returns what the collator makes of the two values.
\<close>

theorem versions_diverge:
  "createDeepPropertySorter rt lc (Many [''x'', ''y''])
      (Obj [(''x'', Num (Finite False 5 0)), (''y'', Str ''a'')])
      (Obj [(''x'', Num NaN), (''y'', Str [])]) = Inr 1
   \<and> App_createDeepPropertySorter rt lc (Many [''x'', ''y''])
      (Obj [(''x'', Num (Finite False 5 0)), (''y'', Str ''a'')])
      (Obj [(''x'', Num NaN), (''y'', Str [])]) = Inr (- 1)
   \<and> (getFirstValid rt (keys_of k) a = Inr aVal \<and> App_getFirstValid rt (keys_of k) a = Inr aVal
        \<and> getFirstValid rt (keys_of k) b = Inr bVal \<and> App_getFirstValid rt (keys_of k) b = Inr bVal
        \<and> getSortGroup aVal \<noteq> 0 \<and> getSortGroup bVal \<noteq> 0
        \<and> getSortGroup aVal \<noteq> getSortGroup bVal
      \<longrightarrow> createDeepPropertySorter rt lc k a b = Inr (getSortGroup aVal - getSortGroup bVal)
        \<and> App_createDeepPropertySorter rt lc k a b = Inr (lc aVal bVal))"
proof -
  let ?a = "Obj [(''x'', Num (Finite False 5 0)), (''y'', Str ''a'')]"
  let ?b = "Obj [(''x'', Num NaN), (''y'', Str [])]"
  let ?xy = "Many [''x'', ''y'']"
  have x: "getValueByPath rt ?a ''x'' = Inr (Num (Finite False 5 0))"
    "getValueByPath rt ?b ''x'' = Inr (Num NaN)"
    and y: "getValueByPath rt ?a ''y'' = Inr (Str ''a'')" "getValueByPath rt ?b ''y'' = Inr (Str [])"
    by (simp_all add: getValueByPath_def optional_member_own)
  have trims: "trim ''a'' = ''a''" "trim [] = []" "toLowerCase ''a'' = ''a''"
    by code_simp+
  have five: "String_number (Finite False 5 0) = ''5''"
    by code_simp
  have a4: "getFirstValid rt (keys_of ?xy) ?a = Inr ''5''"
    and b4: "getFirstValid rt (keys_of ?xy) ?b = Inr ''NaN''"
    by (simp_all add: x five del: String_number.simps(4))
  have a2: "App_getFirstValid rt (keys_of ?xy) ?a = Inr ''a''"
    and b2: "App_getFirstValid rt (keys_of ?xy) ?b = Inr []"
    by (simp_all add: x y trims)
  have groups: "getSortGroup ''5'' = 1" "getSortGroup ''NaN'' = 0"
    by code_simp+
  have letters: "starts_with_letter ''a''" "\<not> starts_with_letter []"
    by code_simp+
  have four: "createDeepPropertySorter rt lc ?xy ?a ?b = Inr 1"
    by (simp add: sorter_eq [OF a4 b4] groups)
  have two: "App_createDeepPropertySorter rt lc ?xy ?a ?b = Inr (- 1)"
    by (simp add: App_sorter_eq [OF a2 b2] letters)
  have "createDeepPropertySorter rt lc k a b = Inr (getSortGroup aVal - getSortGroup bVal)
        \<and> App_createDeepPropertySorter rt lc k a b = Inr (lc aVal bVal)"
    if a: "getFirstValid rt (keys_of k) a = Inr aVal"
      and a': "App_getFirstValid rt (keys_of k) a = Inr aVal"
      and b: "getFirstValid rt (keys_of k) b = Inr bVal"
      and b': "App_getFirstValid rt (keys_of k) b = Inr bVal"
      and groups: "getSortGroup aVal \<noteq> 0" "getSortGroup bVal \<noteq> 0"
        "getSortGroup aVal \<noteq> getSortGroup bVal"
    using groups
    by (simp add: sorter_eq [OF a b] App_sorter_eq [OF a' b'] starts_with_letter_group)
  with four two show ?thesis by blast
qed

text \<open>The digit-led \<^verbatim>\<open>{x: '1'}\<close> against \<^verbatim>\<open>{}\<close>, which has no value, over the order
  of the code units: the four-group comparator returns -2, the two-group
  comparator 1.\<close>

theorem versions_diverge_witness:
  "createDeepPropertySorter standard_members code_unit_order (One ''x'')
      (Obj [(''x'', Str ''1'')]) (Obj []) = Inr (- 2)
   \<and> App_createDeepPropertySorter standard_members code_unit_order (One ''x'')
      (Obj [(''x'', Str ''1'')]) (Obj []) = Inr 1"
proof -
  let ?a = "Obj [(''x'', Str ''1'')]"
  have a: "getFirstValid standard_members (keys_of (One ''x'')) ?a = Inr ''1''"
    "App_getFirstValid standard_members (keys_of (One ''x'')) ?a = Inr ''1''"
    by code_simp+
  have b: "getFirstValid standard_members (keys_of (One ''x'')) (Obj []) = Inr []"
    "App_getFirstValid standard_members (keys_of (One ''x'')) (Obj []) = Inr []"
    by code_simp+
  have groups: "getSortGroup ''1'' = 1" "getSortGroup [] = 3"
    by code_simp+
  have order: "code_unit_order ''1'' [] = 1"
    by simp
  from versions_diverge [of standard_members code_unit_order "One ''x''" ?a "''1''" "Obj []" "[]"]
    a b groups order
  show ?thesis by simp
qed

section \<open>Negative numbers\<close>

text \<open>
  Claim C10, as stated, fails on the negative number \<^verbatim>\<open>-Infinity\<close>: the positive
  number of the same magnitude prints as \<^verbatim>\<open>Infinity\<close>, which is in the letter group
  0, not in the digit group 1.
\<close>

theorem positive_infinity_is_letter_counterexample:
  "negative NegInfinity \<and> magnitude NegInfinity = PosInfinity
   \<and> String_number (magnitude NegInfinity) = ''Infinity''
   \<and> getSortGroup (String_number (magnitude NegInfinity)) = 0
   \<and> getSortGroup (String_number (magnitude NegInfinity)) \<noteq> 1"
  by (simp add: negative_def getSortGroup_def re_letter_i_def code_unit_def)

text \<open>
  Claim C10, amended. When the first usable value of \<open>a\<close> is a negative number \<open>x\<close>,
  the extracted string starts with \<^verbatim>\<open>-\<close> and is in the symbol group 2, and \<open>a\<close> sorts
  after every record \<open>b\<close> whose extracted value starts with an ASCII letter or digit.
  When \<open>x\<close> is finite, the positive number of the same magnitude is in the digit
  group 1.
\<close>

theorem negative_number_is_symbol:
  assumes "\<forall>k\<in>set before. \<exists>v. getValueByPath rt a k = Inr v \<and> \<not> usable v"
    and "getValueByPath rt a key = Inr (Num x)"
    and "negative x"
    and "getFirstValid rt (before @ key # after) b = Inr (c # rest)"
    and "ascii_letter c \<or> ascii_digit c"
  shows "(\<exists>aRest. getFirstValid rt (before @ key # after) a = Inr (CHR ''-'' # aRest)
            \<and> getSortGroup (CHR ''-'' # aRest) = 2)
       \<and> (\<exists>r. createDeepPropertySorter rt lc (Many (before @ key # after)) a b = Inr r \<and> 0 < r)
       \<and> (\<exists>r. createDeepPropertySorter rt lc (Many (before @ key # after)) b a = Inr r \<and> r < 0)
       \<and> (x \<noteq> NegInfinity \<longrightarrow> getSortGroup (String_number (magnitude x)) = 1)"
proof -
  let ?keys = "before @ key # after"
  have "getFirstValid rt ?keys a = getFirstValid rt (key # after) a"
    using assms(1) by (rule getFirstValid_skip_prefix)
  then have a: "getFirstValid rt ?keys a = Inr (String_number x)"
    using assms(2) by simp
  obtain aRest where aRest: "String_number x = CHR ''-'' # aRest"
    using String_number_negative [OF assms(3)] by blast
  have ga: "getSortGroup (CHR ''-'' # aRest) = 2"
    by (rule getSortGroup_minus)
  have gb: "getSortGroup (c # rest) = 0 \<or> getSortGroup (c # rest) = 1"
    using assms(5) by (auto simp: getSortGroup_letter getSortGroup_digit re_digit_ascii)
  have a': "getFirstValid rt (keys_of (Many ?keys)) a = Inr (CHR ''-'' # aRest)"
    using a aRest by simp
  have b': "getFirstValid rt (keys_of (Many ?keys)) b = Inr (c # rest)"
    using assms(4) by simp
  have ab: "\<exists>r. createDeepPropertySorter rt lc (Many ?keys) a b = Inr r \<and> 0 < r"
    using gb by (auto simp: sorter_eq [OF a' b'] ga)
  have ba: "\<exists>r. createDeepPropertySorter rt lc (Many ?keys) b a = Inr r \<and> r < 0"
    using gb by (auto simp: sorter_eq [OF b' a'] ga)
  have "getSortGroup (String_number (magnitude x)) = 1" if "x \<noteq> NegInfinity"
    using assms(3) that by (cases x) (simp_all add: negative_def positive_toString_group)
  with a aRest ga ab ba show ?thesis by simp
qed

text \<open>\<^verbatim>\<open>{alias: '', rank: -5}\<close> against \<^verbatim>\<open>{rank: 5}\<close> with the paths \<^verbatim>\<open>alias\<close>,
  \<^verbatim>\<open>rank\<close> and \<^verbatim>\<open>name\<close>.\<close>

theorem negative_number_is_symbol_witness:
  "(\<exists>aRest. getFirstValid standard_members [''alias'', ''rank'', ''name''] (Obj [(''alias'', Str []), (''rank'', Num (Finite True 5 0))])
       = Inr (CHR ''-'' # aRest) \<and> getSortGroup (CHR ''-'' # aRest) = 2)
   \<and> (\<exists>r. createDeepPropertySorter standard_members code_unit_order (Many [''alias'', ''rank'', ''name''])
          (Obj [(''alias'', Str []), (''rank'', Num (Finite True 5 0))]) (Obj [(''rank'', Num (Finite False 5 0))])
          = Inr r \<and> 0 < r)
   \<and> getSortGroup (String_number (magnitude (Finite True 5 0))) = 1"
proof -
  let ?a = "Obj [(''alias'', Str []), (''rank'', Num (Finite True 5 0))]"
  let ?b = "Obj [(''rank'', Num (Finite False 5 0))]"
  have "getValueByPath standard_members ?a ''alias'' = Inr (Str [])"
    by code_simp
  then have h1: "\<forall>k\<in>set [''alias'']. \<exists>v. getValueByPath standard_members ?a k = Inr v \<and> \<not> usable v"
    by (simp add: usable_def trim_def)
  have h2: "getValueByPath standard_members ?a ''rank'' = Inr (Num (Finite True 5 0))"
    by code_simp
  have h3: "negative (Finite True 5 0)"
    by (simp add: negative_def)
  have h4: "getFirstValid standard_members ([''alias''] @ ''rank'' # [''name'']) ?b = Inr (CHR ''5'' # [])"
    by code_simp
  have h5: "ascii_letter (CHR ''5'') \<or> ascii_digit (CHR ''5'')"
    by (simp add: ascii_digit_def)
  from negative_number_is_symbol [OF h1 h2 h3 h4 h5, of code_unit_order] show ?thesis
    by simp
qed

end
